theory Spec2Isabelle
  imports Complex_Main
begin

section \<open>The table held by a Spreadsheet\<close>

text \<open>
  \<^verbatim>\<open>excel_like_program.py\<close> keeps one pandas DataFrame in \<open>Spreadsheet.df\<close>
  and every method of the class reads or replaces it. The frame is modelled by its
  column labels, in order, and its rows, in order, each row holding one cell per
  column. A column label is a text (a CSV header, the name given to \<open>add_column\<close>) or
  an integer (the positions \<open>0, 1, ...\<close> that \<open>pd.DataFrame([values])\<close> gives a row
  without a header). A cell is a text, an integer, or NaN, the missing value of pandas.
  Cells of other types (float64 values other than NaN, booleans) are outside the
  tables modelled here. The index of the frame is the default one (\<open>0 .. len - 1\<close>) in
  every frame the class builds, so it is not stored.
\<close>

datatype label = IntLabel int | StrLabel string

datatype cell = Text string | IntNum int | NaN

record frame =
  columns :: "label list"
  rows :: "cell list list"

text \<open>\<open>pd.DataFrame()\<close>: no column and no row.\<close>

definition empty_frame :: frame where
  "empty_frame = \<lparr>columns = [], rows = []\<rparr>"

text \<open>\<open>len(df)\<close> counts the rows.\<close>

definition len :: "frame \<Rightarrow> nat" where
  "len df = length (rows df)"

text \<open>\<open>df.empty\<close>: true when either axis has length 0.\<close>

definition df_empty :: "frame \<Rightarrow> bool" where
  "df_empty df \<longleftrightarrow> columns df = [] \<or> rows df = []"

text \<open>
  A DataFrame is rectangular, and the frames the class builds have pairwise distinct
  labels (\<open>read_csv\<close> renames a repeated header, \<open>add_row\<close> on an empty frame numbers
  the columns, \<open>add_column\<close> overwrites a label that exists).
\<close>

definition rectangular :: "frame \<Rightarrow> bool" where
  "rectangular df \<longleftrightarrow> list_all (\<lambda>r. length r = length (columns df)) (rows df)"

definition well_formed :: "frame \<Rightarrow> bool" where
  "well_formed df \<longleftrightarrow> rectangular df \<and> distinct (columns df)"

text \<open>A row read as the mapping from column label to cell that the columns give it.\<close>

definition row_map :: "frame \<Rightarrow> cell list \<Rightarrow> (label \<rightharpoonup> cell)" where
  "row_map df r = map_of (zip (columns df) r)"

section \<open>What a call does to its caller\<close>

text \<open>
  Every method returns \<open>None\<close>. What the caller sees is the line the method prints,
  the chart it hands to matplotlib, or the exception that leaves the call. One
  constructor stands for each \<open>print\<close> of the class.
\<close>

datatype exn =
    FileNotFoundError
  | EmptyDataError
  | ParserError
  | OSError
  | ValueError
  | TypeError
  | RenderError

record plot_request =
  chart :: string
  x_data :: "rat option list"
  y_data :: "rat option list"
  plot_title :: string
  xlabel :: string
  ylabel :: string

datatype message =
    LoadedMsg nat nat
  | FileNotFoundMsg string
  | EmptyCsvMsg
  | LoadFailedMsg exn
  | SavedMsg string
  | SaveFailedMsg exn
  | SheetEmptyMsg
  | FrameMsg frame
  | ExpectedValuesMsg nat nat
  | RowAddedMsg
  | ColumnAddedMsg string
  | ColumnMissingMsg string
  | SumMsg string rat
  | SumFailedMsg exn
  | AverageMsg string "rat option"
  | AverageFailedMsg exn
  | NoRowsFoundMsg string string
  | PlotColumnsMissingMsg
  | UnsupportedChartMsg
  | PlotFailedMsg exn

datatype outcome = Printed message | Shown plot_request | Raised exn

text \<open>
  The failure kinds of the specification, and the kind each outcome reports.
  \<open>Expected k values but got n\<close> is the shape mismatch, \<open>does not exist\<close> the
  missing column; the line \<open>Failed to load CSV\<close> stands for every load failure that is
  neither a missing file nor an empty one. The lines \<open>The spreadsheet is empty\<close> and
  \<open>No rows found\<close> are statuses, not failures. An exception that leaves the call
  reports no kind of the taxonomy; it is a failure all the same.
\<close>

datatype failure =
    NotFound
  | EmptyData
  | ParseError
  | WriteError
  | ColumnNotFound
  | ShapeMismatch
  | UnsupportedChartType
  | ComputationError
  | Uncaught exn

fun failure_kind :: "outcome \<Rightarrow> failure option" where
  "failure_kind (Printed (FileNotFoundMsg p)) = Some NotFound"
| "failure_kind (Printed EmptyCsvMsg) = Some EmptyData"
| "failure_kind (Printed (LoadFailedMsg e)) = Some ParseError"
| "failure_kind (Printed (SaveFailedMsg e)) = Some WriteError"
| "failure_kind (Printed (ExpectedValuesMsg k n)) = Some ShapeMismatch"
| "failure_kind (Printed (ColumnMissingMsg c)) = Some ColumnNotFound"
| "failure_kind (Printed PlotColumnsMissingMsg) = Some ColumnNotFound"
| "failure_kind (Printed UnsupportedChartMsg) = Some UnsupportedChartType"
| "failure_kind (Printed (SumFailedMsg e)) = Some ComputationError"
| "failure_kind (Printed (AverageFailedMsg e)) = Some ComputationError"
| "failure_kind (Printed (PlotFailedMsg e)) = Some ComputationError"
| "failure_kind (Printed m) = None"
| "failure_kind (Shown q) = None"
| "failure_kind (Raised e) = Some (Uncaught e)"

section \<open>add_row\<close>

text \<open>
  \<open>pd.DataFrame([values])\<close>: one row, the columns labelled by position.
\<close>

definition DataFrame :: "string list \<Rightarrow> frame" where
  "DataFrame values =
     \<lparr>columns = map (\<lambda>i. IntLabel (int i)) [0..<length values], rows = [map Text values]\<rparr>"

text \<open>
  \<open>df.loc[len(df)] = values\<close>: the label \<open>len(df)\<close> is not in the default index, so
  the assignment appends a row; pandas raises ValueError when the list has not one
  value per column.
\<close>

definition loc_setitem :: "string list \<Rightarrow> frame \<Rightarrow> exn + frame" where
  "loc_setitem values df =
     (if length values \<noteq> length (columns df) then Inl ValueError
      else Inr (df\<lparr>rows := rows df @ [map Text values]\<rparr>))"

definition add_row :: "string list \<Rightarrow> frame \<Rightarrow> outcome \<times> frame" where
  "add_row values df =
     (if \<not> df_empty df \<and> length values \<noteq> length (columns df)
      then (Printed (ExpectedValuesMsg (length (columns df)) (length values)), df)
      else if df_empty df then (Printed RowAddedMsg, DataFrame values)
      else (case loc_setitem values df of
              Inl e \<Rightarrow> (Raised e, df)
            | Inr df' \<Rightarrow> (Printed RowAddedMsg, df')))"

section \<open>add_column\<close>

text \<open>
  \<open>df[name] = values\<close> in three steps, as pandas takes them. A frame whose index is
  empty first takes the index of a non-empty value: it gets one row per value, every
  existing column filled with NaN. Then the length of the value is checked against the
  index, and ValueError is raised when they differ. Then the cells are written: into
  the column that has the label, or into a new last column.
\<close>

definition ensure_valid_index :: "string list \<Rightarrow> frame \<Rightarrow> frame" where
  "ensure_valid_index values df =
     (if rows df = [] \<and> values \<noteq> []
      then df\<lparr>rows := replicate (length values) (replicate (length (columns df)) NaN)\<rparr>
      else df)"

definition set_column :: "label \<Rightarrow> cell list \<Rightarrow> frame \<Rightarrow> frame" where
  "set_column l cs df =
     (if l \<in> set (columns df)
      then df\<lparr>rows := map2 (\<lambda>r c. map2 (\<lambda>k old. if k = l then c else old) (columns df) r)
                            (rows df) cs\<rparr>
      else df\<lparr>columns := columns df @ [l], rows := map2 (\<lambda>r c. r @ [c]) (rows df) cs\<rparr>)"

definition setitem :: "string \<Rightarrow> string list \<Rightarrow> frame \<Rightarrow> exn + frame" where
  "setitem name values df =
     (let df1 = ensure_valid_index values df in
      if length values \<noteq> len df1 then Inl ValueError
      else Inr (set_column (StrLabel name) (map Text values) df1))"

definition add_column :: "string \<Rightarrow> string list \<Rightarrow> frame \<Rightarrow> outcome \<times> frame" where
  "add_column name values df =
     (if \<not> df_empty df \<and> length values \<noteq> len df
      then (Printed (ExpectedValuesMsg (len df) (length values)), df)
      else (case setitem name values df of
              Inl e \<Rightarrow> (Raised e, df)
            | Inr df' \<Rightarrow> (Printed (ColumnAddedMsg name), df')))"

section \<open>sum_column and average_column\<close>

text \<open>
  \<open>df[col]\<close> for a label that stands once among the columns: the cells at its
  position, one per row.
\<close>

definition position :: "label \<Rightarrow> label list \<Rightarrow> nat" where
  "position l ls = length (takeWhile (\<lambda>k. k \<noteq> l) ls)"

definition getitem :: "label \<Rightarrow> frame \<Rightarrow> cell list" where
  "getitem l df =
     map (\<lambda>r. if position l (columns df) < length r then r ! position l (columns df) else NaN)
       (rows df)"

text \<open>
  \<open>pd.to_numeric(series, errors='coerce')\<close>: a number stays, a text is parsed, and
  what does not parse becomes NaN (here \<open>None\<close>). The parser of numeric texts belongs to
  pandas and is a parameter. Numbers are the rationals they denote: the rounding of
  float64 and its infinities are not modelled.
\<close>

fun coerce :: "(string \<Rightarrow> rat option) \<Rightarrow> cell \<Rightarrow> rat option" where
  "coerce parse (Text s) = parse s"
| "coerce parse (IntNum i) = Some (of_int i)"
| "coerce parse NaN = None"

definition to_numeric :: "(string \<Rightarrow> rat option) \<Rightarrow> cell list \<Rightarrow> rat option list" where
  "to_numeric parse cs = map (coerce parse) cs"

text \<open>\<open>Series.sum()\<close> and \<open>Series.mean()\<close> skip NaN; the mean of no value is NaN.\<close>

definition series_sum :: "rat option list \<Rightarrow> rat" where
  "series_sum vs = foldl (\<lambda>acc v. case v of None \<Rightarrow> acc | Some x \<Rightarrow> acc + x) 0 vs"

definition series_count :: "rat option list \<Rightarrow> nat" where
  "series_count vs = length (filter (\<lambda>v. v \<noteq> None) vs)"

definition series_mean :: "rat option list \<Rightarrow> rat option" where
  "series_mean vs =
     (if series_count vs = 0 then None else Some (series_sum vs / of_nat (series_count vs)))"

text \<open>
  A label that stands more than once makes \<open>df[col]\<close> a frame, on which
  \<open>to_numeric\<close> raises TypeError; the \<open>except\<close> of the method prints it.
\<close>

definition sum_column :: "(string \<Rightarrow> rat option) \<Rightarrow> string \<Rightarrow> frame \<Rightarrow> outcome \<times> frame" where
  "sum_column parse col df =
     (if StrLabel col \<notin> set (columns df) then (Printed (ColumnMissingMsg col), df)
      else if 1 < count_list (columns df) (StrLabel col) then (Printed (SumFailedMsg TypeError), df)
      else (Printed (SumMsg col (series_sum (to_numeric parse (getitem (StrLabel col) df)))), df))"

definition average_column :: "(string \<Rightarrow> rat option) \<Rightarrow> string \<Rightarrow> frame \<Rightarrow> outcome \<times> frame" where
  "average_column parse col df =
     (if StrLabel col \<notin> set (columns df) then (Printed (ColumnMissingMsg col), df)
      else if 1 < count_list (columns df) (StrLabel col)
      then (Printed (AverageFailedMsg TypeError), df)
      else (Printed (AverageMsg col (series_mean (to_numeric parse (getitem (StrLabel col) df)))),
            df))"

section \<open>filter_rows and view\<close>

text \<open>Decimal digits of an integer, as \<open>str\<close> prints it.\<close>

fun show_nat :: "nat \<Rightarrow> string" where
  "show_nat n =
     (if n < 10 then [''0123456789'' ! n] else show_nat (n div 10) @ [''0123456789'' ! (n mod 10)])"

definition show_int :: "int \<Rightarrow> string" where
  "show_int i = (if i < 0 then CHR ''-'' # show_nat (nat (- i)) else show_nat (nat i))"

text \<open>\<open>astype(str)\<close> on one cell.\<close>

fun astype_str :: "cell \<Rightarrow> string" where
  "astype_str (Text s) = s"
| "astype_str (IntNum i) = show_int i"
| "astype_str NaN = ''nan''"

text \<open>\<open>df[mask]\<close>: the rows at which the mask is true, in order.\<close>

definition select_rows :: "bool list \<Rightarrow> frame \<Rightarrow> frame" where
  "select_rows keep df = df\<lparr>rows := map fst (filter snd (zip (rows df) keep))\<rparr>"

definition filter_rows :: "string \<Rightarrow> string \<Rightarrow> frame \<Rightarrow> outcome \<times> frame" where
  "filter_rows col val df =
     (if StrLabel col \<notin> set (columns df) then (Printed (ColumnMissingMsg col), df)
      else (let filtered =
                  select_rows (map (\<lambda>c. astype_str c = val) (getitem (StrLabel col) df)) df
            in if df_empty filtered then (Printed (NoRowsFoundMsg col val), df)
               else (Printed (FrameMsg filtered), df)))"

text \<open>\<open>df.head(n)\<close>: the first \<open>n\<close> rows, or all but the last \<open>-n\<close> for a negative \<open>n\<close>.\<close>

definition head :: "int \<Rightarrow> frame \<Rightarrow> frame" where
  "head n df =
     (if 0 \<le> n then df\<lparr>rows := take (nat n) (rows df)\<rparr>
      else df\<lparr>rows := take (length (rows df) - nat (- n)) (rows df)\<rparr>)"

definition view :: "int \<Rightarrow> frame \<Rightarrow> outcome \<times> frame" where
  "view n df =
     (if df_empty df then (Printed SheetEmptyMsg, df) else (Printed (FrameMsg (head n df)), df))"

section \<open>load_csv and save_csv\<close>

text \<open>
  The file system maps a path to nothing, to a place that cannot be opened, or to the
  content of a file. The format belongs to pandas: the reader \<open>decode\<close> and the writer
  \<open>encode\<close> are parameters, over any type of content.
\<close>

datatype 'c node = NoFile | Denied | File 'c

text \<open>The file system that holds no file.\<close>

definition no_files :: "string \<Rightarrow> 'c node" where
  "no_files p = NoFile"

definition read_csv :: "('c \<Rightarrow> exn + frame) \<Rightarrow> (string \<Rightarrow> 'c node) \<Rightarrow> string \<Rightarrow> exn + frame" where
  "read_csv decode fs path =
     (case fs path of
        NoFile \<Rightarrow> Inl FileNotFoundError
      | Denied \<Rightarrow> Inl OSError
      | File c \<Rightarrow> decode c)"

definition to_csv ::
  "(frame \<Rightarrow> 'c) \<Rightarrow> string \<Rightarrow> frame \<Rightarrow> (string \<Rightarrow> 'c node) \<Rightarrow> exn + (string \<Rightarrow> 'c node)" where
  "to_csv encode path df fs =
     (case fs path of
        Denied \<Rightarrow> Inl OSError
      | _ \<Rightarrow> Inr (fs(path := File (encode df))))"

text \<open>
  \<open>self.df\<close> is assigned only when \<open>pd.read_csv\<close> has returned; the three
  \<open>except\<close> clauses are tried in the order of the source.
\<close>

definition load_csv ::
  "('c \<Rightarrow> exn + frame) \<Rightarrow> (string \<Rightarrow> 'c node) \<Rightarrow> string \<Rightarrow> frame \<Rightarrow> outcome \<times> frame" where
  "load_csv decode fs path df =
     (case read_csv decode fs path of
        Inr df' \<Rightarrow> (Printed (LoadedMsg (len df') (length (columns df'))), df')
      | Inl e \<Rightarrow>
          (if e = FileNotFoundError then (Printed (FileNotFoundMsg path), df)
           else if e = EmptyDataError then (Printed EmptyCsvMsg, df)
           else (Printed (LoadFailedMsg e), df)))"

definition save_csv ::
  "(frame \<Rightarrow> 'c) \<Rightarrow> string \<Rightarrow> frame \<Rightarrow> (string \<Rightarrow> 'c node) \<Rightarrow>
     outcome \<times> frame \<times> (string \<Rightarrow> 'c node)" where
  "save_csv encode path df fs =
     (case to_csv encode path df fs of
        Inr fs' \<Rightarrow> (Printed (SavedMsg path), df, fs')
      | Inl e \<Rightarrow> (Printed (SaveFailedMsg e), df, fs))"

section \<open>plot\<close>

text \<open>
  matplotlib is a parameter: \<open>figure\<close> is what \<open>plt.figure()\<close> raises, if anything,
  and \<open>draw\<close> what drawing and showing the chart raise. The figure is opened before
  the chart type is looked at, as in the source.
\<close>

definition plot ::
  "(string \<Rightarrow> rat option) \<Rightarrow> exn option \<Rightarrow> (plot_request \<Rightarrow> exn option) \<Rightarrow>
     string \<Rightarrow> string \<Rightarrow> string \<Rightarrow> frame \<Rightarrow> outcome \<times> frame" where
  "plot parse figure draw x_col y_col kind df =
     (if StrLabel x_col \<notin> set (columns df) \<or> StrLabel y_col \<notin> set (columns df)
      then (Printed PlotColumnsMissingMsg, df)
      else if ((kind = ''line'' \<or> kind = ''bar'') \<and> 1 < count_list (columns df) (StrLabel x_col))
              \<or> 1 < count_list (columns df) (StrLabel y_col)
      then (Printed (PlotFailedMsg TypeError), df)
      else (case figure of
              Some e \<Rightarrow> (Printed (PlotFailedMsg e), df)
            | None \<Rightarrow>
                (if kind = ''line'' \<or> kind = ''bar''
                 then (let req = \<lparr>chart = kind,
                                  x_data = to_numeric parse (getitem (StrLabel x_col) df),
                                  y_data = to_numeric parse (getitem (StrLabel y_col) df),
                                  plot_title = (if kind = ''line'' then ''Line'' else ''Bar'')
                                            @ '' plot of '' @ y_col @ '' vs '' @ x_col,
                                  xlabel = x_col, ylabel = y_col\<rparr>
                       in case draw req of
                            Some e \<Rightarrow> (Printed (PlotFailedMsg e), df)
                          | None \<Rightarrow> (Shown req, df))
                 else (Printed UnsupportedChartMsg, df))))"

section \<open>Decimal numerals and the CSV format on plain fields\<close>

text \<open>
  An optionally signed run of decimal digits, read as the integer it writes. Every
  numeric parser reads these; \<open>decimal\<close> is the parser that reads nothing else.
\<close>

definition digit_value :: "char \<Rightarrow> nat" where
  "digit_value c = length (takeWhile (\<lambda>d. d \<noteq> c) ''0123456789'')"

definition nat_literal :: "string \<Rightarrow> nat option" where
  "nat_literal s =
     (if s \<noteq> [] \<and> list_all (\<lambda>c. c \<in> set ''0123456789'') s
      then Some (foldl (\<lambda>acc c. 10 * acc + digit_value c) 0 s)
      else None)"

definition int_literal :: "string \<Rightarrow> int option" where
  "int_literal s =
     (case s of
        [] \<Rightarrow> None
      | c # ds \<Rightarrow>
          (if c = CHR ''-'' then map_option (\<lambda>n. - int n) (nat_literal ds)
           else if c = CHR ''+'' then map_option int (nat_literal ds)
           else map_option int (nat_literal s)))"

definition decimal :: "string \<Rightarrow> rat option" where
  "decimal s = map_option of_int (int_literal s)"

text \<open>
  The CSV format as \<open>to_csv(path, index=False)\<close> writes it and \<open>read_csv(path)\<close>
  reads it with the defaults of pandas, on the part of the format that the cells of
  this model reach. A file is the grid of its fields, the header first; the layer of
  delimiters and quotes, which carries each field unchanged, is left out. The writer
  prints a label and a cell with \<open>str\<close> and writes NaN as the empty field. The reader
  takes the header as text labels and infers each column on its own: a column whose
  fields are all integer numerals becomes a column of integers, and in any other column
  the fields that pandas counts as missing become NaN and the others stay text. A header
  without a field is the error \<open>No columns to parse from file\<close>, a record longer than
  the header a parser error, a shorter one is filled with missing fields. Columns that
  pandas reads as float64 or bool, repeated or empty header names and numerals beyond 64
  bits are outside this part of the format.
\<close>

definition label_str :: "label \<Rightarrow> string" where
  "label_str l = (case l of IntLabel i \<Rightarrow> show_int i | StrLabel s \<Rightarrow> s)"

definition field_of :: "cell \<Rightarrow> string" where
  "field_of c = (case c of Text s \<Rightarrow> s | IntNum i \<Rightarrow> show_int i | NaN \<Rightarrow> [])"

definition csv_encode :: "frame \<Rightarrow> string list list" where
  "csv_encode df = map label_str (columns df) # map (map field_of) (rows df)"

definition na_values :: "string list" where
  "na_values =
     [[], ''#N/A'', ''#N/A N/A'', ''#NA'', ''-1.#IND'', ''-1.#QNAN'', ''-NaN'', ''-nan'',
      ''1.#IND'', ''1.#QNAN'', ''<NA>'', ''N/A'', ''NA'', ''NULL'', ''NaN'', ''None'', ''n/a'',
      ''nan'', ''null'']"

definition infer_column :: "string list \<Rightarrow> cell list" where
  "infer_column fs =
     (if list_all (\<lambda>s. int_literal s \<noteq> None) fs
      then map (\<lambda>s. case int_literal s of Some i \<Rightarrow> IntNum i | None \<Rightarrow> NaN) fs
      else map (\<lambda>s. if s \<in> set na_values then NaN else Text s) fs)"

definition csv_decode :: "string list list \<Rightarrow> exn + frame" where
  "csv_decode grid =
     (case grid of
        [] \<Rightarrow> Inl EmptyDataError
      | header # records \<Rightarrow>
          (if header = [] then Inl EmptyDataError
           else if list_ex (\<lambda>r. length header < length r) records then Inl ParserError
           else (let cols = map (\<lambda>j. infer_column
                                        (map (\<lambda>r. if j < length r then r ! j else []) records))
                                [0..<length header]
                 in Inr \<lparr>columns = map StrLabel header,
                         rows = map (\<lambda>i. map (\<lambda>col. col ! i) cols) [0..<length records]\<rparr>)))"

section \<open>Auxiliary facts\<close>

text \<open>
In a rectangular frame the cell that \<open>df[col]\<close> takes from a row, by the position
of the label, is the cell that the row maps the label to. The sum that skips NaN is the
sum of the values that \<open>to_numeric\<close> produced.
\<close>

lemma position_less: "l \<in> set ls \<Longrightarrow> position l ls < length ls"
  unfolding position_def by (induction ls) auto

lemma nth_position: "l \<in> set ls \<Longrightarrow> ls ! position l ls = l"
  unfolding position_def by (induction ls) auto

lemma map_of_zip_position:
  "l \<in> set ls \<Longrightarrow> length r = length ls \<Longrightarrow> map_of (zip ls r) l = Some (r ! position l ls)"
proof (induction ls arbitrary: r)
  case Nil
  then show ?case by simp
next
  case (Cons k ks)
  then obtain c cs where r: "r = c # cs" by (cases r) auto
  show ?case
  proof (cases "k = l")
    case True
    then show ?thesis by (simp add: r position_def)
  next
    case False
    with Cons r show ?thesis by (simp add: position_def)
  qed
qed

lemma rectangular_row: "rectangular df \<Longrightarrow> r \<in> set (rows df) \<Longrightarrow> length r = length (columns df)"
  by (simp add: rectangular_def list_all_iff)

lemma row_map_position:
  "rectangular df \<Longrightarrow> l \<in> set (columns df) \<Longrightarrow> r \<in> set (rows df) \<Longrightarrow>
     row_map df r l = Some (r ! position l (columns df))"
  by (simp add: row_map_def map_of_zip_position rectangular_row)

lemma getitem_row_map:
  "rectangular df \<Longrightarrow> l \<in> set (columns df) \<Longrightarrow>
     map Some (getitem l df) = map (\<lambda>r. row_map df r l) (rows df)"
  by (simp add: getitem_def row_map_position rectangular_row position_less)

lemma map_of_zip_overwrite:
  "map_of (zip ls (map2 (\<lambda>k old. if k = l then c else old) ls r)) l' =
     (if l' = l then (if l \<in> set (take (length r) ls) then Some c else None)
      else map_of (zip ls r) l')"
proof (induction ls arbitrary: r)
  case Nil
  then show ?case by simp
next
  case (Cons k ks)
  show ?case
  proof (cases r)
    case Nil
    then show ?thesis by simp
  next
    case (Cons c' cs)
    with Cons.IH [of cs] show ?thesis by auto
  qed
qed

lemma map_of_zip_snoc:
  "length r = length ls \<Longrightarrow> l \<notin> set ls \<Longrightarrow>
     map_of (zip (ls @ [l]) (r @ [c])) = (map_of (zip ls r))(l \<mapsto> c)"
  by (induction r ls rule: list_induct2) (auto simp: fun_eq_iff)

lemma count_list_distinct: "distinct ls \<Longrightarrow> \<not> Suc 0 < count_list ls l"
  by (induction ls) (auto simp: count_list_0_iff)

lemma series_sum_to_numeric:
  "series_sum (to_numeric parse cs) = sum_list (List.map_filter (coerce parse) cs)"
proof -
  have "foldl (\<lambda>acc v. case v of None \<Rightarrow> acc | Some x \<Rightarrow> acc + x) a (map (coerce parse) cs)
          = a + sum_list (List.map_filter (coerce parse) cs)" for a
    by (induction cs arbitrary: a) (auto simp: List.map_filter_simps split: option.splits)
  from this [of 0] show ?thesis by (simp add: series_sum_def to_numeric_def)
qed

lemma map_filter_none:
  "\<forall>c\<in>set cs. f c = None \<Longrightarrow> List.map_filter f cs = []"
  by (induction cs) (auto simp: List.map_filter_simps)

lemma series_count_to_numeric:
  "\<forall>c\<in>set cs. coerce parse c = None \<Longrightarrow> series_count (to_numeric parse cs) = 0"
  by (induction cs) (auto simp: series_count_def to_numeric_def)

lemma getitem_cells:
  assumes "well_formed df" and "l \<in> set (columns df)"
  shows "getitem l df = map (\<lambda>r. r ! position l (columns df)) (rows df)"
    and "\<forall>r\<in>set (rows df). row_map df r l = Some (r ! position l (columns df))"
proof -
  from assms(1) have rect: "rectangular df" by (simp add: well_formed_def)
  show "getitem l df = map (\<lambda>r. r ! position l (columns df)) (rows df)"
    using rect assms(2) by (simp add: getitem_def rectangular_row position_less)
  show "\<forall>r\<in>set (rows df). row_map df r l = Some (r ! position l (columns df))"
    using rect assms(2) by (simp add: row_map_position)
qed



lemma column_without_numbers:
  assumes "well_formed df" and "l \<in> set (columns df)"
    and "\<forall>r\<in>set (rows df). \<forall>c. row_map df r l = Some c \<longrightarrow> coerce parse c = None"
  shows "\<forall>c\<in>set (getitem l df). coerce parse c = None"
  unfolding getitem_cells(1) [OF assms(1,2)]
  using getitem_cells(2) [OF assms(1,2)] assms(3) by auto

lemma decimal_samples:
  "decimal ''1'' = Some 1" "decimal ''2'' = Some 2" "decimal ''x'' = None" "decimal ''4'' = Some 4"
  "decimal ''abc'' = None" "decimal ''n/a'' = None"
  by (simp_all add: decimal_def int_literal_def nat_literal_def digit_value_def)


lemma add_column_non_empty:
  "\<not> df_empty df \<Longrightarrow> length values = len df \<Longrightarrow>
     add_column name values df
       = (Printed (ColumnAddedMsg name), set_column (StrLabel name) (map Text values) df)"
  by (simp add: add_column_def setitem_def ensure_valid_index_def df_empty_def len_def)

lemma columns_set_column:
  "columns (set_column l cs df) = (if l \<in> set (columns df) then columns df else columns df @ [l])"
  by (simp add: set_column_def)

lemma len_set_column: "length cs = len df \<Longrightarrow> len (set_column l cs df) = len df"
  by (simp add: set_column_def len_def)

lemma row_map_set_column:
  assumes "rectangular df" and "length cs = len df" and "i < len df"
  shows "row_map (set_column l cs df) (rows (set_column l cs df) ! i)
           = (row_map df (rows df ! i))(l \<mapsto> cs ! i)"
proof -
  let ?r = "rows df ! i"
  have r: "?r \<in> set (rows df)" using assms(3) by (simp add: len_def)
  have lr: "length ?r = length (columns df)" using assms(1) r by (rule rectangular_row)
  show ?thesis
  proof (cases "l \<in> set (columns df)")
    case True
    have "rows (set_column l cs df) ! i
            = map2 (\<lambda>k old. if k = l then cs ! i else old) (columns df) ?r"
      using assms(2,3) True by (simp add: set_column_def len_def)
    then show ?thesis
      using True lr by (auto simp: row_map_def columns_set_column map_of_zip_overwrite fun_eq_iff)
  next
    case False
    have "rows (set_column l cs df) ! i = ?r @ [cs ! i]"
      using assms(2,3) False by (simp add: set_column_def len_def)
    moreover have "columns (set_column l cs df) = columns df @ [l]"
      using False by (simp add: columns_set_column)
    moreover have "map_of (zip (columns df @ [l]) (?r @ [cs ! i]))
                     = (map_of (zip (columns df) ?r))(l \<mapsto> cs ! i)"
      using lr False by (rule map_of_zip_snoc)
    ultimately show ?thesis
      unfolding row_map_def by simp
  qed
qed

section \<open>The invariant of the frame\<close>

text \<open>
The empty store is well formed, and \<open>add_row\<close> and \<open>add_column\<close> keep a well-formed
frame well formed, whatever they are given.
\<close>

lemma well_formed_empty_frame: "well_formed empty_frame"
  by (simp add: well_formed_def rectangular_def empty_frame_def)

lemma well_formed_DataFrame: "well_formed (DataFrame values)"
  by (simp add: well_formed_def rectangular_def DataFrame_def distinct_map inj_on_def)

lemma well_formed_add_row: "well_formed df \<Longrightarrow> well_formed (snd (add_row values df))"
  by (auto simp: add_row_def loc_setitem_def well_formed_DataFrame)
     (auto simp: well_formed_def rectangular_def)

lemma rectangular_set_column:
  assumes "rectangular df" and "length cs = len df"
  shows "rectangular (set_column l cs df)"
proof -
  have "length r = length (columns df)" if "(r, c) \<in> set (zip (rows df) cs)" for r c
    using assms(1) that by (auto simp: rectangular_def list_all_iff dest: set_zip_leftD)
  then show ?thesis
    by (auto simp: rectangular_def set_column_def list_all_iff)
qed

lemma well_formed_set_column:
  "well_formed df \<Longrightarrow> length cs = len df \<Longrightarrow> well_formed (set_column l cs df)"
  by (auto simp: well_formed_def rectangular_set_column columns_set_column)

lemma well_formed_ensure_valid_index:
  "well_formed df \<Longrightarrow> well_formed (ensure_valid_index values df)"
  by (simp add: well_formed_def rectangular_def ensure_valid_index_def list_all_iff)

lemma well_formed_add_column:
  "well_formed df \<Longrightarrow> well_formed (snd (add_column name values df))"
  by (auto simp: add_column_def setitem_def Let_def well_formed_set_column
      well_formed_ensure_valid_index)

section \<open>add_row: the claims C3, C4 and C10\<close>



text \<open>
C4. On the empty store \<open>add_row\<close> with the two values x and y gives the frame whose
columns are the positions 0 and 1, printed as \<open>0\<close> and \<open>1\<close>, and whose only row maps
column 0 to x and column 1 to y. In general, on every empty frame, \<open>add_row\<close> prints
\<open>Row added\<close> and leaves a frame whose columns are the positions \<open>0, 1, 2, ...\<close>, as many
as there are values, and whose rows are the one row of the values. The labels are the
integers themselves, as \<open>pd.DataFrame([values])\<close> numbers them.
\<close>

theorem add_row_on_empty:
  "add_row [''x'', ''y''] empty_frame
     = (Printed RowAddedMsg,
        \<lparr>columns = [IntLabel 0, IntLabel 1], rows = [[Text ''x'', Text ''y'']]\<rparr>)
   \<and> map label_str [IntLabel 0, IntLabel 1] = [''0'', ''1'']
   \<and> row_map (snd (add_row [''x'', ''y''] empty_frame)) [Text ''x'', Text ''y''] (IntLabel 0)
       = Some (Text ''x'')
   \<and> row_map (snd (add_row [''x'', ''y''] empty_frame)) [Text ''x'', Text ''y''] (IntLabel 1)
       = Some (Text ''y'')
   \<and> (df_empty df \<longrightarrow>
          fst (add_row values df) = Printed RowAddedMsg
        \<and> columns (snd (add_row values df)) = map (\<lambda>i. IntLabel (int i)) [0..<length values]
        \<and> length (columns (snd (add_row values df))) = length values
        \<and> rows (snd (add_row values df)) = [map Text values]
        \<and> len (snd (add_row values df)) = 1)"
proof -
  have general: "df_empty df \<longrightarrow>
          fst (add_row values df) = Printed RowAddedMsg
        \<and> columns (snd (add_row values df)) = map (\<lambda>i. IntLabel (int i)) [0..<length values]
        \<and> length (columns (snd (add_row values df))) = length values
        \<and> rows (snd (add_row values df)) = [map Text values]
        \<and> len (snd (add_row values df)) = 1"
    by (simp add: add_row_def DataFrame_def len_def)
  have example: "add_row [''x'', ''y''] empty_frame
     = (Printed RowAddedMsg,
        \<lparr>columns = [IntLabel 0, IntLabel 1], rows = [[Text ''x'', Text ''y'']]\<rparr>)"
    by (simp add: add_row_def df_empty_def empty_frame_def DataFrame_def)
  have names: "map label_str [IntLabel 0, IntLabel 1] = [''0'', ''1'']"
    by (simp add: label_str_def show_int_def)
  show ?thesis
    using general names by (simp add: example row_map_def)
qed

theorem add_row_on_empty_witness:
  "df_empty \<lparr>columns = [], rows = []\<rparr>
   \<and> columns (snd (add_row [''a'', ''b'', ''c''] \<lparr>columns = [], rows = []\<rparr>))
       = [IntLabel 0, IntLabel 1, IntLabel 2]
   \<and> rows (snd (add_row [''a'', ''b'', ''c''] \<lparr>columns = [], rows = []\<rparr>))
       = [[Text ''a'', Text ''b'', Text ''c'']]"
  using add_row_on_empty [of "\<lparr>columns = [], rows = []\<rparr>" "[''a'', ''b'', ''c'']"]
  by (simp add: df_empty_def)

text \<open>
No text names a positional column: the methods that take a column name take a text,
and \<open>col not in self.df.columns\<close> holds for the text \<open>0\<close> when the label is the
integer 0.
\<close>

lemma positional_labels_are_not_text:
  "fst (sum_column parse ''0'' (snd (add_row [''1'', ''2''] empty_frame)))
     = Printed (ColumnMissingMsg ''0'')"
  by (simp add: add_row_def df_empty_def empty_frame_def DataFrame_def sum_column_def)

text \<open>
C10. On a frame that has columns and no row, \<open>df.empty\<close> is true, so \<open>add_row\<close>
does not compare the number of values with the number of columns: for every list of
values it reports no failure, the shape mismatch in particular, and replaces the whole
frame by the one row of the values under the positions \<open>0, 1, 2, ...\<close>; the column
names the frame had are gone.
\<close>

theorem add_row_on_header_only:
  assumes "columns df \<noteq> []" and "rows df = []"
  shows "add_row values df
           = (Printed RowAddedMsg,
              \<lparr>columns = map (\<lambda>i. IntLabel (int i)) [0..<length values],
               rows = [map Text values]\<rparr>)
       \<and> failure_kind (fst (add_row values df)) = None"
  using assms by (simp add: add_row_def df_empty_def DataFrame_def)

theorem add_row_on_header_only_witness:
  "columns \<lparr>columns = [StrLabel ''name'', StrLabel ''age''], rows = []\<rparr> \<noteq> []
   \<and> rows \<lparr>columns = [StrLabel ''name'', StrLabel ''age''], rows = []\<rparr> = []
   \<and> add_row [''x'', ''y'', ''z''] \<lparr>columns = [StrLabel ''name'', StrLabel ''age''], rows = []\<rparr>
       = (Printed RowAddedMsg,
          \<lparr>columns = [IntLabel 0, IntLabel 1, IntLabel 2],
           rows = [[Text ''x'', Text ''y'', Text ''z'']]\<rparr>)"
  using add_row_on_header_only
    [of "\<lparr>columns = [StrLabel ''name'', StrLabel ''age''], rows = []\<rparr>" "[''x'', ''y'', ''z'']"]
  by simp

section \<open>add_column: the claim C5\<close>

text \<open>
C5. The frame is well formed and not empty, with \<open>r\<close> rows. With \<open>r\<close> values
\<open>add_column\<close> prints \<open>Column added\<close>; the columns are the ones before the call when
the name was among them, and the ones before the call followed by the name, one more,
when it was not; no error tells the two cases apart. The row count is unchanged, and row
\<open>i\<close> maps the name to value \<open>i\<close> and every other label to the cell it had. With any
other number of values the method prints \<open>Expected r values but got n\<close>, the shape
mismatch, and returns the frame it was given.
\<close>

theorem add_column_on_non_empty:
  assumes "well_formed df" and "\<not> df_empty df"
  shows "(length values = len df \<longrightarrow>
            fst (add_column name values df) = Printed (ColumnAddedMsg name)
          \<and> (StrLabel name \<in> set (columns df) \<longrightarrow>
                columns (snd (add_column name values df)) = columns df)
          \<and> (StrLabel name \<notin> set (columns df) \<longrightarrow>
                columns (snd (add_column name values df)) = columns df @ [StrLabel name]
              \<and> length (columns (snd (add_column name values df))) = length (columns df) + 1)
          \<and> len (snd (add_column name values df)) = len df
          \<and> (\<forall>i<len df.
                row_map (snd (add_column name values df))
                    (rows (snd (add_column name values df)) ! i)
                  = (row_map df (rows df ! i))(StrLabel name \<mapsto> Text (values ! i))))
       \<and> (length values \<noteq> len df \<longrightarrow>
            add_column name values df = (Printed (ExpectedValuesMsg (len df) (length values)), df)
          \<and> failure_kind (fst (add_column name values df)) = Some ShapeMismatch)"
proof (intro conjI impI)
  assume eq: "length values = len df"
  from assms(1) have rect: "rectangular df" by (simp add: well_formed_def)
  note ac = add_column_non_empty [OF assms(2) eq, of name]
  show "fst (add_column name values df) = Printed (ColumnAddedMsg name)"
    by (simp add: ac)
  show "columns (snd (add_column name values df)) = columns df"
    if "StrLabel name \<in> set (columns df)"
    using that by (simp add: ac columns_set_column)
  show "columns (snd (add_column name values df)) = columns df @ [StrLabel name]"
    if "StrLabel name \<notin> set (columns df)"
    using that by (simp add: ac columns_set_column)
  show "length (columns (snd (add_column name values df))) = length (columns df) + 1"
    if "StrLabel name \<notin> set (columns df)"
    using that by (simp add: ac columns_set_column)
  show "len (snd (add_column name values df)) = len df"
    using eq by (simp add: ac len_set_column)
  show "\<forall>i<len df.
          row_map (snd (add_column name values df)) (rows (snd (add_column name values df)) ! i)
            = (row_map df (rows df ! i))(StrLabel name \<mapsto> Text (values ! i))"
  proof (intro allI impI)
    fix i assume i: "i < len df"
    have "row_map (set_column (StrLabel name) (map Text values) df)
            (rows (set_column (StrLabel name) (map Text values) df) ! i)
          = (row_map df (rows df ! i))(StrLabel name \<mapsto> map Text values ! i)"
      using rect eq i by (intro row_map_set_column) simp_all
    then show "row_map (snd (add_column name values df))
            (rows (snd (add_column name values df)) ! i)
          = (row_map df (rows df ! i))(StrLabel name \<mapsto> Text (values ! i))"
      using eq i by (simp add: ac)
  qed
next
  assume ne: "length values \<noteq> len df"
  show "add_column name values df = (Printed (ExpectedValuesMsg (len df) (length values)), df)"
    using assms(2) ne by (simp add: add_column_def)
  then show "failure_kind (fst (add_column name values df)) = Some ShapeMismatch"
    by simp
qed

theorem add_column_on_non_empty_witness:
  "well_formed \<lparr>columns = [StrLabel ''a'', StrLabel ''b''],
                rows = [[Text ''1'', Text ''2''], [Text ''3'', Text ''4'']]\<rparr>
   \<and> \<not> df_empty \<lparr>columns = [StrLabel ''a'', StrLabel ''b''],
                   rows = [[Text ''1'', Text ''2''], [Text ''3'', Text ''4'']]\<rparr>
   \<and> columns (snd (add_column ''c'' [''x'', ''y'']
         \<lparr>columns = [StrLabel ''a'', StrLabel ''b''],
          rows = [[Text ''1'', Text ''2''], [Text ''3'', Text ''4'']]\<rparr>))
       = [StrLabel ''a'', StrLabel ''b'', StrLabel ''c'']
   \<and> columns (snd (add_column ''a'' [''x'', ''y'']
         \<lparr>columns = [StrLabel ''a'', StrLabel ''b''],
          rows = [[Text ''1'', Text ''2''], [Text ''3'', Text ''4'']]\<rparr>))
       = [StrLabel ''a'', StrLabel ''b'']
   \<and> add_column ''c'' [''x'']
         \<lparr>columns = [StrLabel ''a'', StrLabel ''b''],
          rows = [[Text ''1'', Text ''2''], [Text ''3'', Text ''4'']]\<rparr>
       = (Printed (ExpectedValuesMsg 2 1),
          \<lparr>columns = [StrLabel ''a'', StrLabel ''b''],
           rows = [[Text ''1'', Text ''2''], [Text ''3'', Text ''4'']]\<rparr>)"
proof -
  let ?df = "\<lparr>columns = [StrLabel ''a'', StrLabel ''b''],
              rows = [[Text ''1'', Text ''2''], [Text ''3'', Text ''4'']]\<rparr>"
  have r: "well_formed ?df" by (simp add: well_formed_def rectangular_def)
  have ne: "\<not> df_empty ?df" by (simp add: df_empty_def)
  have l: "len ?df = 2" by (simp add: len_def)
  show ?thesis
    using r ne add_column_on_non_empty [OF r ne, of "[''x'', ''y'']" "''c''"]
      add_column_on_non_empty [OF r ne, of "[''x'', ''y'']" "''a''"]
      add_column_on_non_empty [OF r ne, of "[''x'']" "''c''"]
    by (simp add: l)
qed

section \<open>sum_column and average_column: the claims C6 and C7\<close>



text \<open>
C7. When no cell of a column of a well-formed frame coerces to a number, \<open>average_column\<close> prints the
average NaN (here \<open>None\<close>): the outcome is no failure and no exception, it is not the
average zero, and it differs from what \<open>sum_column\<close> prints for the same column, the
sum zero.
\<close>

theorem average_of_non_numeric_column:
  assumes "well_formed df" and "StrLabel col \<in> set (columns df)"
    and "\<forall>r\<in>set (rows df). \<forall>c. row_map df r (StrLabel col) = Some c \<longrightarrow> coerce parse c = None"
  shows "average_column parse col df = (Printed (AverageMsg col None), df)
       \<and> failure_kind (fst (average_column parse col df)) = None
       \<and> fst (average_column parse col df) \<noteq> Printed (AverageMsg col (Some 0))
       \<and> (\<forall>e. fst (average_column parse col df) \<noteq> Raised e)
       \<and> sum_column parse col df = (Printed (SumMsg col 0), df)"
proof -
  have none: "\<forall>c\<in>set (getitem (StrLabel col) df). coerce parse c = None"
    using assms by (rule column_without_numbers)
  have avg: "average_column parse col df = (Printed (AverageMsg col None), df)"
    using assms(1,2) none
    by (simp add: average_column_def well_formed_def count_list_distinct series_mean_def
        series_count_to_numeric)
  have total: "sum_column parse col df = (Printed (SumMsg col 0), df)"
    using assms(1,2) none
    by (simp add: sum_column_def well_formed_def count_list_distinct series_sum_to_numeric
        map_filter_none)
  show ?thesis by (simp add: avg total)
qed

theorem average_of_non_numeric_column_witness:
  "well_formed \<lparr>columns = [StrLabel ''c''], rows = [[Text ''abc''], [Text ''n/a'']]\<rparr>
   \<and> StrLabel ''c'' \<in> set (columns \<lparr>columns = [StrLabel ''c''], rows = [[Text ''abc''], [Text ''n/a'']]\<rparr>)
   \<and> coerce decimal (Text ''abc'') = None \<and> coerce decimal (Text ''n/a'') = None
   \<and> average_column decimal ''c'' \<lparr>columns = [StrLabel ''c''], rows = [[Text ''abc''], [Text ''n/a'']]\<rparr>
      = (Printed (AverageMsg ''c'' None),
         \<lparr>columns = [StrLabel ''c''], rows = [[Text ''abc''], [Text ''n/a'']]\<rparr>)"
proof -
  let ?df = "\<lparr>columns = [StrLabel ''c''], rows = [[Text ''abc''], [Text ''n/a'']]\<rparr>"
  have d: "well_formed ?df" and m: "StrLabel ''c'' \<in> set (columns ?df)"
    by (simp_all add: well_formed_def rectangular_def)
  have none: "\<forall>r\<in>set (rows ?df). \<forall>c. row_map ?df r (StrLabel ''c'') = Some c \<longrightarrow>
                  coerce decimal c = None"
    by (simp add: row_map_def decimal_samples)
  show ?thesis
    using d average_of_non_numeric_column [OF d m none]
    by (simp add: decimal_samples)
qed

section \<open>filter_rows: the claim C8\<close>



text \<open>
A frame that has the column and no row has no row that matches, and gets the same line.
\<close>

lemma filter_rows_on_header_only:
  "StrLabel col \<in> set (columns df) \<Longrightarrow> rows df = [] \<Longrightarrow>
     filter_rows col val df = (Printed (NoRowsFoundMsg col val), df)"
  by (simp add: filter_rows_def select_rows_def df_empty_def getitem_def)

section \<open>Failures: the claims C1 and C9\<close>

text \<open>
C1. A call that reports a failure returns the frame it was given. \<open>load_csv\<close> replaces
the frame only when reading has succeeded: whenever \<open>pd.read_csv\<close> raises, a failure is
reported and the columns and rows are the ones before the call. \<open>add_row\<close> and
\<open>add_column\<close> change the frame only on the path that prints \<open>added\<close>. The other
methods (\<open>save_csv\<close>, \<open>view\<close>, \<open>sum_column\<close>, \<open>average_column\<close>, \<open>filter_rows\<close>,
\<open>plot\<close>) never change the frame, whether they fail or not; a \<open>save_csv\<close> that fails
leaves the files as they were, too.
\<close>

theorem failure_leaves_table:
  "(failure_kind (fst (load_csv decode fs path df)) \<noteq> None \<longrightarrow>
      snd (load_csv decode fs path df) = df)
   \<and> (read_csv decode fs path = Inl e \<longrightarrow>
        failure_kind (fst (load_csv decode fs path df)) \<noteq> None
      \<and> columns (snd (load_csv decode fs path df)) = columns df
      \<and> rows (snd (load_csv decode fs path df)) = rows df)
   \<and> fst (snd (save_csv encode path df fs')) = df
   \<and> (failure_kind (fst (save_csv encode path df fs')) \<noteq> None \<longrightarrow>
        snd (snd (save_csv encode path df fs')) = fs')
   \<and> snd (view n df) = df
   \<and> (failure_kind (fst (add_row vals df)) \<noteq> None \<longrightarrow> snd (add_row vals df) = df)
   \<and> (failure_kind (fst (add_column name vals df)) \<noteq> None \<longrightarrow>
        snd (add_column name vals df) = df)
   \<and> snd (sum_column parse col df) = df
   \<and> snd (average_column parse col df) = df
   \<and> snd (filter_rows col val df) = df
   \<and> snd (plot parse figure draw x_col y_col kind df) = df"
proof (intro conjI)
  show "failure_kind (fst (load_csv decode fs path df)) \<noteq> None \<longrightarrow>
      snd (load_csv decode fs path df) = df"
    by (simp add: load_csv_def split: sum.splits)
  show "read_csv decode fs path = Inl e \<longrightarrow>
        failure_kind (fst (load_csv decode fs path df)) \<noteq> None
      \<and> columns (snd (load_csv decode fs path df)) = columns df
      \<and> rows (snd (load_csv decode fs path df)) = rows df"
    by (simp add: load_csv_def)
  show "fst (snd (save_csv encode path df fs')) = df"
    by (simp add: save_csv_def split: sum.splits)
  show "failure_kind (fst (save_csv encode path df fs')) \<noteq> None \<longrightarrow>
        snd (snd (save_csv encode path df fs')) = fs'"
    by (simp add: save_csv_def split: sum.splits)
  show "snd (view n df) = df"
    by (simp add: view_def)
  show "failure_kind (fst (add_row vals df)) \<noteq> None \<longrightarrow> snd (add_row vals df) = df"
    by (simp add: add_row_def loc_setitem_def)
  show "failure_kind (fst (add_column name vals df)) \<noteq> None \<longrightarrow>
        snd (add_column name vals df) = df"
    by (simp add: add_column_def split: sum.splits)
  show "snd (sum_column parse col df) = df"
    by (simp add: sum_column_def)
  show "snd (average_column parse col df) = df"
    by (simp add: average_column_def)
  show "snd (filter_rows col val df) = df"
    by (simp add: filter_rows_def Let_def)
  show "snd (plot parse figure draw x_col y_col kind df) = df"
    by (simp add: plot_def Let_def split: option.splits)
qed

theorem failure_leaves_table_witness:
  "failure_kind (fst (load_csv csv_decode no_files ''data.csv''
       \<lparr>columns = [StrLabel ''a''], rows = [[Text ''1'']]\<rparr>)) = Some NotFound
   \<and> snd (load_csv csv_decode no_files ''data.csv''
       \<lparr>columns = [StrLabel ''a''], rows = [[Text ''1'']]\<rparr>)
      = \<lparr>columns = [StrLabel ''a''], rows = [[Text ''1'']]\<rparr>
   \<and> read_csv csv_decode (no_files(''data.csv'' := File [])) ''data.csv'' = Inl EmptyDataError
   \<and> rows (snd (load_csv csv_decode (no_files(''data.csv'' := File [])) ''data.csv''
       \<lparr>columns = [StrLabel ''a''], rows = [[Text ''1'']]\<rparr>)) = [[Text ''1'']]
   \<and> failure_kind (fst (save_csv csv_encode ''out.csv''
       \<lparr>columns = [StrLabel ''a''], rows = [[Text ''1'']]\<rparr> (no_files(''out.csv'' := Denied))))
      = Some WriteError
   \<and> snd (snd (save_csv csv_encode ''out.csv''
       \<lparr>columns = [StrLabel ''a''], rows = [[Text ''1'']]\<rparr> (no_files(''out.csv'' := Denied))))
      = no_files(''out.csv'' := Denied)
   \<and> failure_kind (fst (add_row [''x'', ''y'']
       \<lparr>columns = [StrLabel ''a''], rows = [[Text ''1'']]\<rparr>)) = Some ShapeMismatch
   \<and> snd (add_row [''x'', ''y''] \<lparr>columns = [StrLabel ''a''], rows = [[Text ''1'']]\<rparr>)
      = \<lparr>columns = [StrLabel ''a''], rows = [[Text ''1'']]\<rparr>
   \<and> failure_kind (fst (add_column ''b'' [''x'', ''y'']
       \<lparr>columns = [StrLabel ''a''], rows = [[Text ''1'']]\<rparr>)) = Some ShapeMismatch
   \<and> snd (add_column ''b'' [''x'', ''y''] \<lparr>columns = [StrLabel ''a''], rows = [[Text ''1'']]\<rparr>)
      = \<lparr>columns = [StrLabel ''a''], rows = [[Text ''1'']]\<rparr>
   \<and> failure_kind (fst (add_column ''b'' [''x'', ''y''] \<lparr>columns = [], rows = [[]]\<rparr>))
      = Some (Uncaught ValueError)
   \<and> snd (add_column ''b'' [''x'', ''y''] \<lparr>columns = [], rows = [[]]\<rparr>)
      = \<lparr>columns = [], rows = [[]]\<rparr>"
proof -
  let ?df = "\<lparr>columns = [StrLabel ''a''], rows = [[Text ''1'']]\<rparr>"
  let ?bare = "\<lparr>columns = [], rows = [[]]\<rparr>"
  let ?fs = "(no_files(''data.csv'' := File [])) :: string \<Rightarrow> string list list node"
  have k1: "failure_kind (fst (load_csv csv_decode no_files ''data.csv'' ?df)) = Some NotFound"
    by (simp add: load_csv_def read_csv_def no_files_def)
  have k2: "read_csv csv_decode ?fs ''data.csv'' = Inl EmptyDataError"
    by (simp add: read_csv_def csv_decode_def)
  let ?ro = "(no_files(''out.csv'' := Denied)) :: string \<Rightarrow> string list list node"
  have k6: "failure_kind (fst (save_csv csv_encode ''out.csv'' ?df ?ro)) = Some WriteError"
    by (simp add: save_csv_def to_csv_def)
  have s6: "snd (snd (save_csv csv_encode ''out.csv'' ?df ?ro)) = ?ro"
    using failure_leaves_table
      [where encode = csv_encode and path = "''out.csv''" and df = "?df" and fs' = "?ro",
       THEN conjunct2, THEN conjunct2, THEN conjunct2, THEN conjunct1] k6
    by simp
  have k3: "failure_kind (fst (add_row [''x'', ''y''] ?df)) = Some ShapeMismatch"
    by (simp add: add_row_def df_empty_def)
  have k4: "failure_kind (fst (add_column ''b'' [''x'', ''y''] ?df)) = Some ShapeMismatch"
    by (simp add: add_column_def df_empty_def len_def)
  have k5: "failure_kind (fst (add_column ''b'' [''x'', ''y''] ?bare)) = Some (Uncaught ValueError)"
    by (simp add: add_column_def df_empty_def len_def setitem_def ensure_valid_index_def)
  have s1: "snd (load_csv csv_decode no_files ''data.csv'' ?df) = ?df"
    using failure_leaves_table
      [where decode = csv_decode and fs = no_files and path = "''data.csv''" and df = "?df",
       THEN conjunct1] k1
    by simp
  have s2: "rows (snd (load_csv csv_decode ?fs ''data.csv'' ?df)) = [[Text ''1'']]"
    using failure_leaves_table
      [where decode = csv_decode and fs = "?fs" and path = "''data.csv''" and df = "?df"
         and e = EmptyDataError,
       THEN conjunct2, THEN conjunct1] k2
    by simp
  have s3: "snd (add_row [''x'', ''y''] ?df) = ?df"
    using failure_leaves_table [where df = "?df" and vals = "[''x'', ''y'']", THEN conjunct2, THEN conjunct2, THEN conjunct2, THEN conjunct2, THEN conjunct2,
       THEN conjunct1] k3 by simp
  have s4: "snd (add_column ''b'' [''x'', ''y''] ?df) = ?df"
    using failure_leaves_table [where df = "?df" and vals = "[''x'', ''y'']" and name = "''b''", THEN conjunct2, THEN conjunct2, THEN conjunct2, THEN conjunct2, THEN conjunct2,
       THEN conjunct2, THEN conjunct1]
      k4
    by simp
  have s5: "snd (add_column ''b'' [''x'', ''y''] ?bare) = ?bare"
    using failure_leaves_table [where df = "?bare" and vals = "[''x'', ''y'']" and name = "''b''", THEN conjunct2, THEN conjunct2, THEN conjunct2, THEN conjunct2, THEN conjunct2,
       THEN conjunct2, THEN conjunct1]
      k5
    by simp
  show ?thesis
    using k1 k2 k3 k4 k5 k6 s1 s2 s3 s4 s5 s6 by simp
qed

text \<open>
Which calls let an exception out. \<open>add_column\<close> has no \<open>try\<close>, and its length check
is skipped whenever \<open>df.empty\<close> holds. A frame without rows takes its rows from the
values, so nothing is raised there (a frame with columns and no row included). A frame
with rows and no column is empty as well, keeps its index, and pandas raises ValueError
for values of another length. No other method lets an exception out.
\<close>

lemma add_row_never_raises: "fst (add_row values df) \<noteq> Raised e"
  by (simp add: add_row_def loc_setitem_def)

lemma other_methods_never_raise:
  "fst (load_csv decode fs path df) \<noteq> Raised e"
  "fst (save_csv encode path df fs') \<noteq> Raised e"
  "fst (view n df) \<noteq> Raised e"
  "fst (sum_column parse col df) \<noteq> Raised e"
  "fst (average_column parse col df) \<noteq> Raised e"
  "fst (filter_rows col val df) \<noteq> Raised e"
  "fst (plot parse figure draw x_col y_col kind df) \<noteq> Raised e"
  by (simp_all add: load_csv_def save_csv_def view_def sum_column_def average_column_def
      filter_rows_def plot_def Let_def split: sum.splits option.splits)

lemma add_column_raises_iff:
  "fst (add_column name values df) = Raised e \<longleftrightarrow>
     e = ValueError \<and> columns df = [] \<and> rows df \<noteq> [] \<and> length values \<noteq> len df"
  by (auto simp: add_column_def setitem_def ensure_valid_index_def df_empty_def len_def Let_def)

lemma add_column_on_header_only:
  assumes "columns df \<noteq> []" and "rows df = []" and "values \<noteq> []"
  shows "fst (add_column name values df) = Printed (ColumnAddedMsg name)"
    and "len (snd (add_column name values df)) = length values"
  using assms
  by (simp_all add: add_column_def setitem_def ensure_valid_index_def df_empty_def len_def
      Let_def set_column_def)

text \<open>
C9. On the store that \<open>add_row([])\<close> leaves behind when called on the empty store (one
row, no column), \<open>add_column\<close> with the name c and two values raises ValueError out
of the call, where the claim has the failure reported inside it. The frame is unchanged.
\<close>

theorem add_column_raises_value_error:
  "add_row [] empty_frame = (Printed RowAddedMsg, \<lparr>columns = [], rows = [[]]\<rparr>)
   \<and> add_column ''c'' [''a'', ''b''] (snd (add_row [] empty_frame))
      = (Raised ValueError, \<lparr>columns = [], rows = [[]]\<rparr>)"
  by (simp add: add_row_def DataFrame_def empty_frame_def df_empty_def add_column_def
      setitem_def ensure_valid_index_def len_def)

section \<open>save_csv and load_csv: the claim C2\<close>




end
